theory Spec2Isabelle
  imports Main "HOL-Library.Word"
begin

section \<open>The MTP server binding: media/jni/android\_media\_MtpServer.cpp\<close>

text \<open>
  The file binds a Java object to a native worker. The Java object holds one
  \<open>int\<close> field, \<open>mNativeContext\<close>, in which the native side keeps the
  address of a heap-allocated \<open>MtpThread\<close>. Four native methods (setup,
  finalize, start, stop) run on the caller's thread; \<open>MtpThread::threadLoop\<close>
  is the body the worker thread runs.

  The embedding is shallow: each C++ function is a HOL function from the state it
  reads to the state it leaves, together with the list of external calls it made.
  A dereference of a null or freed pointer is undefined behaviour in C++; here it
  is a value of type \<open>fault\<close>.
\<close>

subsection \<open>Values, external calls, faults\<close>

text \<open>Pointers are 32 bits wide: the source stores one in a Java \<open>int\<close>
  with the cast \<open>(int)thread\<close> and reads it back with \<open>(MtpThread *)\<close>.\<close>

type_synonym addr = "32 word"

datatype cval = IntV int | PtrV addr | StrV string

text \<open>The functions the file calls and does not define. A call is recorded with
  its actual arguments, in the order of the source.\<close>

datatype callee =
    Open | Printf | Close
  | LogE | LogD
  | New_MtpServer | AddStorage | Run | Delete_MtpServer
  | GetMtpDatabase | GetStringUTFChars | ReleaseStringUTFChars
  | New_MtpThread | Delete_this
  | Thread_run

datatype event = Call callee "cval list"

datatype fault = NullPointerDereference | UseAfterFree | NotFresh

text \<open>Two macros come from headers outside the file (\<open>fcntl.h\<close> and
  \<open>private/android_filesystem_config.h\<close>); their values are parameters.\<close>

record platform =
  O_RDWR :: int
  AID_SDCARD_RW :: int

subsection \<open>class MtpThread\<close>

record MtpThread =
  mDatabase :: addr
  mStoragePath :: string
  mDone :: bool

type_synonym heap = "addr \<rightharpoonup> MtpThread"

text \<open>The constructor's initialiser list.\<close>

definition MtpThread_ctor :: "addr \<Rightarrow> string \<Rightarrow> MtpThread" where
  "MtpThread_ctor database storagePath =
     \<lparr>mDatabase = database, mStoragePath = storagePath, mDone = False\<rparr>"

definition setDone :: "MtpThread \<Rightarrow> MtpThread" where
  "setDone this = this\<lparr>mDone := True\<rparr>"

text \<open>
  \<open>threadLoop pf fd this h\<close> is one call of the loop body on the object at address
  \<open>this\<close>. \<open>fd\<close> is what \<open>open\<close> returned. The result is the list of
  external calls, the returned \<open>bool\<close> and the heap afterwards.

  \<open>server->run()\<close> blocks, and the other thread may run meanwhile. The body
  reads \<open>mDone\<close> once, after \<open>run\<close> has returned, and the two fields it
  reads before (\<open>mDatabase\<close>, \<open>mStoragePath\<close>) are written by the constructor
  only. So \<open>h\<close> is the heap at the moment \<open>run\<close> returns: whatever the caller's
  thread did while the server ran has happened before this call.

  When \<open>open\<close> fails the body returns before it reads any member of the object.
  The literals \<open>0664\<close> and \<open>0775\<close> are octal: 436 and 509.
\<close>

definition threadLoop ::
  "platform \<Rightarrow> int \<Rightarrow> addr \<Rightarrow> heap \<Rightarrow> fault + (event list \<times> bool \<times> heap)" where
  "threadLoop pf fd this h =
     (let opened = [Call Open [StrV ''/dev/mtp_usb'', IntV (O_RDWR pf)],
                    Call Printf [StrV ''open returned %d\<newline>'', IntV fd]]
      in if fd < 0 then
           Inr (opened @ [Call LogE [StrV ''could not open MTP driver\<newline>'']], False, h)
         else if this = 0 then Inl NullPointerDereference
         else (case h this of
             None \<Rightarrow> Inl UseAfterFree
           | Some obj \<Rightarrow>
               (let served = opened @
                      [Call New_MtpServer
                         [IntV fd, PtrV (mDatabase obj), IntV (AID_SDCARD_RW pf), IntV 436, IntV 509],
                       Call AddStorage [StrV (mStoragePath obj)],
                       Call LogD [StrV ''MtpThread server->run''],
                       Call Run [],
                       Call Close [IntV fd],
                       Call Delete_MtpServer []];
                    done = mDone obj
                in if done then
                     Inr (served @
                            [Call Delete_this [PtrV this],
                             Call LogD [StrV ''threadLoop returning %s'', StrV ''false'']],
                          \<not> done, h(this := None))
                   else
                     Inr (served @
                            [Call LogD [StrV ''threadLoop returning %s'', StrV ''true'']],
                          \<not> done, h))))"

subsection \<open>The native methods\<close>

text \<open>The state both threads share: the heap of \<open>MtpThread\<close> objects and the
  Java object's field. A Java \<open>int\<close> field is 0 until it is assigned.\<close>

record sys =
  heap :: heap
  mNativeContext :: "32 word"

definition init :: sys where
  "init = \<lparr>heap = Map.empty, mNativeContext = 0\<rparr>"

text \<open>
  \<open>android_media_MtpServer_setup p database storagePathStr s\<close>: \<open>database\<close> is
  what \<open>getMtpDatabase\<close> returned, \<open>storagePathStr\<close> the characters
  \<open>GetStringUTFChars\<close> returned, and \<open>p\<close> the address \<open>new\<close> returned.
  \<open>SetIntField\<close> is the write of the field. The function has no branch.
\<close>

definition android_media_MtpServer_setup ::
  "addr \<Rightarrow> addr \<Rightarrow> string \<Rightarrow> sys \<Rightarrow> event list \<times> sys" where
  "android_media_MtpServer_setup p database storagePathStr s =
     ([Call LogD [StrV ''setup\<newline>''],
       Call GetMtpDatabase [],
       Call GetStringUTFChars [],
       Call New_MtpThread [PtrV database, StrV storagePathStr],
       Call ReleaseStringUTFChars [StrV storagePathStr]],
      s\<lparr>heap := (heap s)(p \<mapsto> MtpThread_ctor database storagePathStr),
        mNativeContext := p\<rparr>)"

definition android_media_MtpServer_finalize :: "sys \<Rightarrow> event list \<times> sys" where
  "android_media_MtpServer_finalize s = ([Call LogD [StrV ''finalize\<newline>'']], s)"

text \<open>\<open>start\<close> calls a member function through the pointer it read, with no test.
  \<open>Thread::run\<close> belongs to the base class, outside the file: the call is
  recorded, and the iterations of the worker it launches are the \<open>ThreadLoop\<close>
  actions below.\<close>

definition android_media_MtpServer_start :: "sys \<Rightarrow> fault + (event list \<times> sys)" where
  "android_media_MtpServer_start s =
     (let thread = mNativeContext s
      in if thread = 0 then Inl NullPointerDereference
         else (case heap s thread of
             None \<Rightarrow> Inl UseAfterFree
           | Some obj \<Rightarrow>
               Inr ([Call LogD [StrV ''start\<newline>''],
                     Call Thread_run [PtrV thread, StrV ''MtpThread'']], s)))"

definition android_media_MtpServer_stop :: "sys \<Rightarrow> fault + (event list \<times> sys)" where
  "android_media_MtpServer_stop s =
     (let thread = mNativeContext s
      in if thread \<noteq> 0 then
           (case heap s thread of
               None \<Rightarrow> Inl UseAfterFree
             | Some obj \<Rightarrow>
                 Inr ([Call LogD [StrV ''stop\<newline>'']],
                      s\<lparr>heap := (heap s)(thread \<mapsto> setDone obj), mNativeContext := 0\<rparr>))
         else Inr ([Call LogD [StrV ''stop\<newline>'']], s))"

subsection \<open>Sequences of operations\<close>

text \<open>
  What can happen to the shared state, one operation at a time: a call of one of
  the four native methods, or one iteration of the worker of the object at some
  address, with the descriptor its \<open>open\<close> returned. \<open>Setup\<close> carries the
  address \<open>new\<close> returns; \<open>new\<close> never returns null nor the address of a live
  object, and a sequence that asks for that is refused with \<open>NotFresh\<close>.

  Nothing ties a \<open>ThreadLoop\<close> action to an earlier \<open>Start\<close>: the sequences
  include every schedule of the worker thread, and more.
\<close>

datatype action =
    Setup addr addr string
  | Finalize
  | Start
  | Stop
  | ThreadLoop addr int

fun step :: "platform \<Rightarrow> action \<Rightarrow> sys \<Rightarrow> fault + (event list \<times> sys)" where
  "step pf (Setup p database path) s =
     (if p = 0 \<or> heap s p \<noteq> None then Inl NotFresh
      else Inr (android_media_MtpServer_setup p database path s))"
| "step pf Finalize s = Inr (android_media_MtpServer_finalize s)"
| "step pf Start s = android_media_MtpServer_start s"
| "step pf Stop s = android_media_MtpServer_stop s"
| "step pf (ThreadLoop this fd) s =
     (case threadLoop pf fd this (heap s) of
         Inl f \<Rightarrow> Inl f
       | Inr (evs, again, h') \<Rightarrow> Inr (evs, s\<lparr>heap := h'\<rparr>))"

fun exec :: "platform \<Rightarrow> action list \<Rightarrow> sys \<Rightarrow> fault + (event list \<times> sys)" where
  "exec pf [] s = Inr ([], s)"
| "exec pf (a # as) s =
     (case step pf a s of
         Inl f \<Rightarrow> Inl f
       | Inr (evs, s') \<Rightarrow>
           (case exec pf as s' of
               Inl f \<Rightarrow> Inl f
             | Inr (evs', s'') \<Rightarrow> Inr (evs @ evs', s'')))"

subsection \<open>Reading a result\<close>

definition events_of :: "fault + (event list \<times> 'a) \<Rightarrow> event list" where
  "events_of r = (case r of Inl f \<Rightarrow> [] | Inr (evs, x) \<Rightarrow> evs)"

definition returned :: "fault + (event list \<times> bool \<times> heap) \<Rightarrow> bool option" where
  "returned r = (case r of Inl f \<Rightarrow> None | Inr (evs, b, h) \<Rightarrow> Some b)"

fun calls_to :: "callee \<Rightarrow> event list \<Rightarrow> cval list list" where
  "calls_to c [] = []"
| "calls_to c (Call c' args # evs) =
     (if c' = c then args # calls_to c evs else calls_to c evs)"

subsection \<open>The field, when it is not null\<close>

text \<open>The field holds either null or the address of a live object whose flag is
  still clear: \<open>stop\<close> is the only writer of the flag and it clears the field in
  the same call, and the worker frees an object only after it has seen the flag.\<close>

definition slot_valid :: "sys \<Rightarrow> bool" where
  "slot_valid s =
     (mNativeContext s = 0 \<or>
      (case heap s (mNativeContext s) of None \<Rightarrow> False | Some obj \<Rightarrow> \<not> mDone obj))"

section \<open>Properties\<close>

subsection \<open>The loop body, case by case\<close>

lemma threadLoop_open_failed:
  "fd < 0 \<Longrightarrow> threadLoop pf fd this h =
     Inr ([Call Open [StrV ''/dev/mtp_usb'', IntV (O_RDWR pf)],
           Call Printf [StrV ''open returned %d\<newline>'', IntV fd],
           Call LogE [StrV ''could not open MTP driver\<newline>'']], False, h)"
  by (simp add: threadLoop_def)

lemma threadLoop_served:
  "0 \<le> fd \<Longrightarrow> this \<noteq> 0 \<Longrightarrow> h this = Some obj \<Longrightarrow>
   threadLoop pf fd this h =
     Inr ([Call Open [StrV ''/dev/mtp_usb'', IntV (O_RDWR pf)],
           Call Printf [StrV ''open returned %d\<newline>'', IntV fd],
           Call New_MtpServer
             [IntV fd, PtrV (mDatabase obj), IntV (AID_SDCARD_RW pf), IntV 436, IntV 509],
           Call AddStorage [StrV (mStoragePath obj)],
           Call LogD [StrV ''MtpThread server->run''],
           Call Run [],
           Call Close [IntV fd],
           Call Delete_MtpServer []] @
          (if mDone obj then [Call Delete_this [PtrV this]] else []) @
          [Call LogD [StrV ''threadLoop returning %s'',
                      StrV (if mDone obj then ''false'' else ''true'')]],
          \<not> mDone obj,
          if mDone obj then h(this := None) else h)"
  by (simp add: threadLoop_def Let_def)

lemma threadLoop_Inr_cases:
  assumes "threadLoop pf fd this h = Inr (evs, again, h')"
  shows "(fd < 0 \<and> \<not> again \<and> h' = h \<and> Call Delete_this [PtrV this] \<notin> set evs)
       \<or> (0 \<le> fd \<and> this \<noteq> 0 \<and> (\<exists>obj. h this = Some obj \<and> again = (\<not> mDone obj)
            \<and> h' = (if mDone obj then h(this := None) else h)
            \<and> (mDone obj \<longrightarrow> Call Delete_this [PtrV this] \<in> set evs)))"
  using assms
  by (auto simp: threadLoop_def Let_def split: if_splits option.splits)

lemma threadLoop_deletes_only_this:
  assumes "threadLoop pf fd this h = Inr (evs, again, h')" "a \<noteq> this"
  shows "h' a = h a"
  using assms
  by (auto simp: threadLoop_def Let_def split: if_splits option.splits)

lemma step_keeps:
  assumes "step pf act s = Inr (evs, s')" "heap s a = Some t"
    "Call Delete_this [PtrV a] \<notin> set evs"
  shows "\<exists>t'. heap s' a = Some t' \<and> (mDone t \<longrightarrow> mDone t')
           \<and> mDatabase t' = mDatabase t \<and> mStoragePath t' = mStoragePath t"
proof (cases act)
  case (Setup p database path)
  with assms show ?thesis
    by (auto simp: android_media_MtpServer_setup_def split: if_splits)
next
  case Finalize
  with assms show ?thesis by (auto simp: android_media_MtpServer_finalize_def)
next
  case Start
  with assms show ?thesis
    by (auto simp: android_media_MtpServer_start_def Let_def split: if_splits option.splits)
next
  case Stop
  with assms show ?thesis
    by (auto simp: android_media_MtpServer_stop_def setDone_def Let_def
        split: if_splits option.splits)
next
  case (ThreadLoop this fd)
  with assms obtain again h' where tl: "threadLoop pf fd this (heap s) = Inr (evs, again, h')"
    and s': "s' = s\<lparr>heap := h'\<rparr>"
    by (auto split: sum.splits prod.splits)
  show ?thesis
  proof (cases "a = this")
    case True
    from threadLoop_Inr_cases[OF tl] assms(2,3) True have "h' = heap s"
      by (auto split: if_splits)
    with s' assms(2) show ?thesis by simp
  next
    case False
    with threadLoop_deletes_only_this[OF tl] s' assms(2) show ?thesis by simp
  qed
qed

lemma exec_keeps:
  "exec pf acts s = Inr (evs, s') \<Longrightarrow> heap s a = Some t \<Longrightarrow>
   Call Delete_this [PtrV a] \<notin> set evs \<Longrightarrow>
   \<exists>t'. heap s' a = Some t' \<and> (mDone t \<longrightarrow> mDone t')
           \<and> mDatabase t' = mDatabase t \<and> mStoragePath t' = mStoragePath t"
proof (induction acts arbitrary: s evs t)
  case Nil
  then show ?case by simp
next
  case (Cons act acts)
  from Cons.prems(1) obtain e1 s1 e2 where
    st: "step pf act s = Inr (e1, s1)" and ex: "exec pf acts s1 = Inr (e2, s')"
    and evs: "evs = e1 @ e2"
    by (auto split: sum.splits prod.splits)
  from Cons.prems(3) evs have n1: "Call Delete_this [PtrV a] \<notin> set e1"
    and n2: "Call Delete_this [PtrV a] \<notin> set e2" by auto
  from step_keeps[OF st Cons.prems(2) n1] obtain t1 where
    t1: "heap s1 a = Some t1" "mDone t \<longrightarrow> mDone t1"
      "mDatabase t1 = mDatabase t" "mStoragePath t1 = mStoragePath t" by blast
  from Cons.IH[OF ex t1(1) n2] t1 show ?case by auto
qed

lemma step_flag_write:
  assumes "step pf act s = Inr (evs, s')" "heap s a = Some t" "heap s' a = Some t'"
    "mDone t' \<noteq> mDone t"
  shows "act = Stop \<and> mNativeContext s = a \<and> t' = setDone t"
  using assms
  by (cases act)
     (auto simp: android_media_MtpServer_setup_def android_media_MtpServer_finalize_def
        android_media_MtpServer_start_def android_media_MtpServer_stop_def setDone_def
        threadLoop_def Let_def
        split: if_splits option.splits sum.splits prod.splits)

lemma step_release:
  assumes "step pf act s = Inr (evs, s')" "heap s a = Some t" "heap s' a = None"
  shows "(\<exists>fd. act = ThreadLoop a fd \<and> 0 \<le> fd) \<and> mDone t \<and> Call Delete_this [PtrV a] \<in> set evs"
  using assms
  by (cases act)
     (auto simp: android_media_MtpServer_setup_def android_media_MtpServer_finalize_def
        android_media_MtpServer_start_def android_media_MtpServer_stop_def setDone_def
        threadLoop_def Let_def
        split: if_splits option.splits sum.splits prod.splits)

lemma exec_release:
  "exec pf acts s = Inr (evs, s') \<Longrightarrow> heap s a = Some t \<Longrightarrow> heap s' a = None \<Longrightarrow>
   \<exists>fd. ThreadLoop a fd \<in> set acts \<and> 0 \<le> fd"
proof (induction acts arbitrary: s evs t)
  case Nil
  then show ?case by simp
next
  case (Cons act acts)
  from Cons.prems(1) obtain e1 s1 e2 where
    st: "step pf act s = Inr (e1, s1)" and ex: "exec pf acts s1 = Inr (e2, s')"
    by (auto split: sum.splits prod.splits)
  show ?case
  proof (cases "heap s1 a")
    case None
    from step_release[OF st Cons.prems(2) None] show ?thesis by auto
  next
    case (Some t1)
    from Cons.IH[OF ex Some Cons.prems(3)] show ?thesis by auto
  qed
qed

subsection \<open>The field is null or valid in every state reached from the start\<close>

lemma slot_valid_init: "slot_valid init"
  by (simp add: slot_valid_def init_def)

lemma step_slot_valid:
  assumes "step pf act s = Inr (evs, s')" "slot_valid s"
  shows "slot_valid s'"
  using assms
  by (cases act)
     (auto simp: slot_valid_def android_media_MtpServer_setup_def MtpThread_ctor_def
        android_media_MtpServer_finalize_def android_media_MtpServer_start_def
        android_media_MtpServer_stop_def threadLoop_def Let_def
        split: if_splits option.splits sum.splits prod.splits)

lemma exec_slot_valid:
  "exec pf acts s = Inr (evs, s') \<Longrightarrow> slot_valid s \<Longrightarrow> slot_valid s'"
proof (induction acts arbitrary: s evs)
  case Nil
  then show ?case by simp
next
  case (Cons act acts)
  from Cons.prems(1) obtain e1 s1 e2 where
    st: "step pf act s = Inr (e1, s1)" and ex: "exec pf acts s1 = Inr (e2, s')"
    by (auto split: sum.splits prod.splits)
  from Cons.IH[OF ex step_slot_valid[OF st Cons.prems(2)]] show ?case .
qed

lemma reachable_slot:
  assumes "exec pf acts init = Inr (evs, s)" "mNativeContext s \<noteq> 0"
  shows "\<exists>obj. heap s (mNativeContext s) = Some obj \<and> \<not> mDone obj"
  using exec_slot_valid[OF assms(1) slot_valid_init] assms(2)
  by (auto simp: slot_valid_def split: option.splits)

lemma step_slot_write:
  assumes "step pf act s = Inr (evs, s')" "mNativeContext s' \<noteq> mNativeContext s"
  shows "(\<exists>database path. act = Setup (mNativeContext s') database path)
       \<or> (act = Stop \<and> mNativeContext s' = 0)"
  using assms
  by (cases act)
     (auto simp: android_media_MtpServer_setup_def android_media_MtpServer_finalize_def
        android_media_MtpServer_start_def android_media_MtpServer_stop_def Let_def
        split: if_splits option.splits sum.splits prod.splits)

subsection \<open>An iteration whose open fails\<close>

text \<open>
  Claim C1. When \<open>open\<close> returns a negative descriptor, the loop body makes
  three external calls (the \<open>open\<close>, the \<open>printf\<close> and the error log)
  and returns at once: it constructs no \<open>MtpServer\<close>, runs none, opens the
  device once only, leaves the heap as it was, and returns \<open>false\<close>, the value
  that ends the worker.
\<close>

theorem threadLoop_open_failure:
  "fd < 0 \<Longrightarrow>
     threadLoop pf fd this h =
       Inr ([Call Open [StrV ''/dev/mtp_usb'', IntV (O_RDWR pf)],
             Call Printf [StrV ''open returned %d\<newline>'', IntV fd],
             Call LogE [StrV ''could not open MTP driver\<newline>'']], False, h)
     \<and> calls_to New_MtpServer (events_of (threadLoop pf fd this h)) = []
     \<and> calls_to Run (events_of (threadLoop pf fd this h)) = []
     \<and> length (calls_to Open (events_of (threadLoop pf fd this h))) = 1
     \<and> returned (threadLoop pf fd this h) = Some False"
  by (simp add: threadLoop_open_failed events_of_def returned_def)

theorem threadLoop_open_failure_witness:
  "(- 1 :: int) < 0
   \<and> threadLoop \<lparr>O_RDWR = 2, AID_SDCARD_RW = 1015\<rparr> (- 1) 4096 Map.empty =
       Inr ([Call Open [StrV ''/dev/mtp_usb'', IntV 2],
             Call Printf [StrV ''open returned %d\<newline>'', IntV (- 1)],
             Call LogE [StrV ''could not open MTP driver\<newline>'']], False, Map.empty)
   \<and> calls_to New_MtpServer
        (events_of (threadLoop \<lparr>O_RDWR = 2, AID_SDCARD_RW = 1015\<rparr> (- 1) 4096 Map.empty)) = []
   \<and> returned (threadLoop \<lparr>O_RDWR = 2, AID_SDCARD_RW = 1015\<rparr> (- 1) 4096 Map.empty)
       = Some False"
  using threadLoop_open_failure
    [of "- 1" "\<lparr>O_RDWR = 2, AID_SDCARD_RW = 1015\<rparr>" 4096 Map.empty]
  by (simp add: events_of_def returned_def)

text \<open>
  The value returned after a failed \<open>open\<close> is not \<open>true\<close>, the value
  that asks for another iteration: with \<open>open\<close> returning \<open>-1\<close> the body
  returns \<open>false\<close>.
\<close>

theorem open_failure_not_rescheduled_counterexample:
  "(- 1 :: int) < 0
   \<and> returned (threadLoop \<lparr>O_RDWR = 2, AID_SDCARD_RW = 1015\<rparr> (- 1) 4096 Map.empty)
       \<noteq> Some True"
  by (simp add: threadLoop_def returned_def)

text \<open>
  Claim C2, as the code has it. When \<open>open\<close> fails the loop body returns
  \<open>false\<close>. That is the value it returns after a completed run that found the
  completion flag set, the value that prevents another iteration; after a
  completed run with the flag clear it returns \<open>true\<close>.
\<close>

theorem open_failure_returns_false:
  "fd < 0 \<Longrightarrow>
     returned (threadLoop pf fd this h) = Some False
     \<and> (0 \<le> fd' \<and> this \<noteq> 0 \<and> h this = Some obj \<and> mDone obj \<longrightarrow>
          returned (threadLoop pf fd' this h) = returned (threadLoop pf fd this h))
     \<and> (0 \<le> fd' \<and> this \<noteq> 0 \<and> h this = Some obj \<and> \<not> mDone obj \<longrightarrow>
          returned (threadLoop pf fd' this h) = Some True)"
  by (simp add: threadLoop_open_failed threadLoop_served returned_def)

theorem open_failure_returns_false_witness:
  "(- 1 :: int) < 0
   \<and> returned (threadLoop \<lparr>O_RDWR = 2, AID_SDCARD_RW = 1015\<rparr> (- 1) 4096
        [4096 \<mapsto> \<lparr>mDatabase = 512, mStoragePath = ''/sdcard'', mDone = True\<rparr>]) = Some False
   \<and> returned (threadLoop \<lparr>O_RDWR = 2, AID_SDCARD_RW = 1015\<rparr> 3 4096
        [4096 \<mapsto> \<lparr>mDatabase = 512, mStoragePath = ''/sdcard'', mDone = True\<rparr>]) = Some False"
  using open_failure_returns_false
    [of "- 1" "\<lparr>O_RDWR = 2, AID_SDCARD_RW = 1015\<rparr>" 4096
        "[4096 \<mapsto> \<lparr>mDatabase = 512, mStoragePath = ''/sdcard'', mDone = True\<rparr>]"
        3 "\<lparr>mDatabase = 512, mStoragePath = ''/sdcard'', mDone = True\<rparr>"]
  by simp

subsection \<open>An iteration that runs the server\<close>

text \<open>
  Claim C3. When \<open>open\<close> succeeds on a live object, the body opens the
  device, constructs the server, adds the storage, runs the server, closes the
  descriptor and deletes the server, in that order, and then reads \<open>mDone\<close>.
  If the flag is set it deletes the object itself and returns \<open>false\<close>; if the
  flag is clear it returns \<open>true\<close> and the heap is as before.
\<close>

theorem threadLoop_after_run:
  "0 \<le> fd \<Longrightarrow> this \<noteq> 0 \<Longrightarrow> h this = Some obj \<Longrightarrow>
     (mDone obj \<longrightarrow>
        threadLoop pf fd this h =
          Inr ([Call Open [StrV ''/dev/mtp_usb'', IntV (O_RDWR pf)],
                Call Printf [StrV ''open returned %d\<newline>'', IntV fd],
                Call New_MtpServer
                  [IntV fd, PtrV (mDatabase obj), IntV (AID_SDCARD_RW pf), IntV 436, IntV 509],
                Call AddStorage [StrV (mStoragePath obj)],
                Call LogD [StrV ''MtpThread server->run''],
                Call Run [],
                Call Close [IntV fd],
                Call Delete_MtpServer [],
                Call Delete_this [PtrV this],
                Call LogD [StrV ''threadLoop returning %s'', StrV ''false'']],
               False, h(this := None)))
   \<and> (\<not> mDone obj \<longrightarrow>
        threadLoop pf fd this h =
          Inr ([Call Open [StrV ''/dev/mtp_usb'', IntV (O_RDWR pf)],
                Call Printf [StrV ''open returned %d\<newline>'', IntV fd],
                Call New_MtpServer
                  [IntV fd, PtrV (mDatabase obj), IntV (AID_SDCARD_RW pf), IntV 436, IntV 509],
                Call AddStorage [StrV (mStoragePath obj)],
                Call LogD [StrV ''MtpThread server->run''],
                Call Run [],
                Call Close [IntV fd],
                Call Delete_MtpServer [],
                Call LogD [StrV ''threadLoop returning %s'', StrV ''true'']],
               True, h))"
  by (simp add: threadLoop_served)

theorem threadLoop_after_run_witness:
  "(0 :: int) \<le> 3 \<and> (4096 :: 32 word) \<noteq> 0
   \<and> [4096 \<mapsto> \<lparr>mDatabase = 512, mStoragePath = ''/sdcard'', mDone = True\<rparr>] (4096 :: 32 word)
       = Some \<lparr>mDatabase = 512, mStoragePath = ''/sdcard'', mDone = True\<rparr>
   \<and> threadLoop \<lparr>O_RDWR = 2, AID_SDCARD_RW = 1015\<rparr> 3 4096
        [4096 \<mapsto> \<lparr>mDatabase = 512, mStoragePath = ''/sdcard'', mDone = True\<rparr>] =
          Inr ([Call Open [StrV ''/dev/mtp_usb'', IntV 2],
                Call Printf [StrV ''open returned %d\<newline>'', IntV 3],
                Call New_MtpServer [IntV 3, PtrV 512, IntV 1015, IntV 436, IntV 509],
                Call AddStorage [StrV ''/sdcard''],
                Call LogD [StrV ''MtpThread server->run''],
                Call Run [],
                Call Close [IntV 3],
                Call Delete_MtpServer [],
                Call Delete_this [PtrV 4096],
                Call LogD [StrV ''threadLoop returning %s'', StrV ''false'']],
               False, Map.empty)
   \<and> threadLoop \<lparr>O_RDWR = 2, AID_SDCARD_RW = 1015\<rparr> 3 4096
        [4096 \<mapsto> \<lparr>mDatabase = 512, mStoragePath = ''/sdcard'', mDone = False\<rparr>] =
          Inr ([Call Open [StrV ''/dev/mtp_usb'', IntV 2],
                Call Printf [StrV ''open returned %d\<newline>'', IntV 3],
                Call New_MtpServer [IntV 3, PtrV 512, IntV 1015, IntV 436, IntV 509],
                Call AddStorage [StrV ''/sdcard''],
                Call LogD [StrV ''MtpThread server->run''],
                Call Run [],
                Call Close [IntV 3],
                Call Delete_MtpServer [],
                Call LogD [StrV ''threadLoop returning %s'', StrV ''true'']],
               True,
               [4096 \<mapsto> \<lparr>mDatabase = 512, mStoragePath = ''/sdcard'', mDone = False\<rparr>])"
  using threadLoop_after_run
    [of 3 4096 "[4096 \<mapsto> \<lparr>mDatabase = 512, mStoragePath = ''/sdcard'', mDone = True\<rparr>]"
        "\<lparr>mDatabase = 512, mStoragePath = ''/sdcard'', mDone = True\<rparr>"
        "\<lparr>O_RDWR = 2, AID_SDCARD_RW = 1015\<rparr>"]
    threadLoop_after_run
    [of 3 4096 "[4096 \<mapsto> \<lparr>mDatabase = 512, mStoragePath = ''/sdcard'', mDone = False\<rparr>]"
        "\<lparr>mDatabase = 512, mStoragePath = ''/sdcard'', mDone = False\<rparr>"
        "\<lparr>O_RDWR = 2, AID_SDCARD_RW = 1015\<rparr>"]
  by simp

text \<open>
  The constructor call of the server does not have six arguments: in a run with
  descriptor 3 it has the five shown.
\<close>

theorem server_constructor_arity_counterexample:
  "calls_to New_MtpServer
     (events_of (threadLoop \<lparr>O_RDWR = 2, AID_SDCARD_RW = 1015\<rparr> 3 4096
        [4096 \<mapsto> \<lparr>mDatabase = 512, mStoragePath = ''/sdcard'', mDone = False\<rparr>]))
     = [[IntV 3, PtrV 512, IntV 1015, IntV 436, IntV 509]]
   \<and> map length (calls_to New_MtpServer
     (events_of (threadLoop \<lparr>O_RDWR = 2, AID_SDCARD_RW = 1015\<rparr> 3 4096
        [4096 \<mapsto> \<lparr>mDatabase = 512, mStoragePath = ''/sdcard'', mDone = False\<rparr>])))
     \<noteq> [6]"
  by (simp add: threadLoop_def events_of_def)

text \<open>
  Claim C8, as the code has it. In every iteration whose \<open>open\<close> succeeds
  the server is constructed once, with exactly five arguments: the descriptor
  \<open>open\<close> returned, the object's database pointer, the group id
  \<open>AID_SDCARD_RW\<close>, the file mode \<open>0664\<close> and the directory mode
  \<open>0775\<close>. No user id is passed. The last three do not depend on the object,
  the descriptor or the heap.
\<close>

theorem server_constructed_with_five_arguments:
  "0 \<le> fd \<Longrightarrow> this \<noteq> 0 \<Longrightarrow> h this = Some obj \<Longrightarrow>
     calls_to New_MtpServer (events_of (threadLoop pf fd this h)) =
       [[IntV fd, PtrV (mDatabase obj), IntV (AID_SDCARD_RW pf), IntV 436, IntV 509]]"
  by (simp add: threadLoop_served events_of_def)

theorem server_constructed_with_five_arguments_witness:
  "(0 :: int) \<le> 7 \<and> (4096 :: 32 word) \<noteq> 0
   \<and> [4096 \<mapsto> \<lparr>mDatabase = 512, mStoragePath = ''/sdcard'', mDone = False\<rparr>] (4096 :: 32 word)
       = Some \<lparr>mDatabase = 512, mStoragePath = ''/sdcard'', mDone = False\<rparr>
   \<and> calls_to New_MtpServer
        (events_of (threadLoop \<lparr>O_RDWR = 2, AID_SDCARD_RW = 1015\<rparr> 7 4096
           [4096 \<mapsto> \<lparr>mDatabase = 512, mStoragePath = ''/sdcard'', mDone = False\<rparr>]))
       = [[IntV 7, PtrV 512, IntV 1015, IntV 436, IntV 509]]"
  using server_constructed_with_five_arguments
    [of 7 4096 "[4096 \<mapsto> \<lparr>mDatabase = 512, mStoragePath = ''/sdcard'', mDone = False\<rparr>]"
        "\<lparr>mDatabase = 512, mStoragePath = ''/sdcard'', mDone = False\<rparr>"
        "\<lparr>O_RDWR = 2, AID_SDCARD_RW = 1015\<rparr>"]
  by simp

subsection \<open>The completion flag\<close>

text \<open>
  Claim C4. \<open>setup\<close> creates the object with the flag clear. \<open>setDone\<close>
  sets it. In one operation, the flag of an object that is live before and after
  changes only if the operation is \<open>stop\<close> on the object the field points to,
  and then it becomes true. Over any sequence of operations and worker iterations,
  an object that is not deleted stays live, and a flag that was set is still set.
\<close>

theorem mDone_never_cleared:
  "(android_media_MtpServer_setup p database path s0 = (evs0, s1) \<longrightarrow>
      (\<exists>obj. heap s1 p = Some obj \<and> \<not> mDone obj))
   \<and> mDone (setDone obj)
   \<and> (step pf act s = Inr (evs, s') \<and> heap s a = Some t \<and> heap s' a = Some t'
        \<and> mDone t' \<noteq> mDone t \<longrightarrow>
          act = Stop \<and> mNativeContext s = a \<and> t' = setDone t \<and> mDone t')
   \<and> (exec pf acts s = Inr (evs, s') \<and> heap s a = Some t
        \<and> Call Delete_this [PtrV a] \<notin> set evs \<longrightarrow>
          (\<exists>t'. heap s' a = Some t' \<and> (mDone t \<longrightarrow> mDone t')))"
proof -
  have created: "android_media_MtpServer_setup p database path s0 = (evs0, s1) \<longrightarrow>
      (\<exists>obj. heap s1 p = Some obj \<and> \<not> mDone obj)"
    by (auto simp: android_media_MtpServer_setup_def MtpThread_ctor_def)
  have written: "mDone (setDone obj)"
    by (simp add: setDone_def)
  have one_step: "step pf act s = Inr (evs, s') \<and> heap s a = Some t \<and> heap s' a = Some t'
        \<and> mDone t' \<noteq> mDone t \<longrightarrow>
          act = Stop \<and> mNativeContext s = a \<and> t' = setDone t \<and> mDone t'"
    using step_flag_write[of pf act s evs s' a t t'] by (auto simp: setDone_def)
  have many_steps: "exec pf acts s = Inr (evs, s') \<and> heap s a = Some t
        \<and> Call Delete_this [PtrV a] \<notin> set evs \<longrightarrow>
          (\<exists>t'. heap s' a = Some t' \<and> (mDone t \<longrightarrow> mDone t'))"
    using exec_keeps[of pf acts s evs s' a t] by blast
  from created written one_step many_steps show ?thesis by blast
qed

theorem mDone_never_cleared_witness:
  "exec \<lparr>O_RDWR = 2, AID_SDCARD_RW = 1015\<rparr>
      [Stop, ThreadLoop 4096 (- 1), Setup 8192 512 ''/mnt'', Start]
      \<lparr>heap = [4096 \<mapsto> \<lparr>mDatabase = 512, mStoragePath = ''/sdcard'', mDone = True\<rparr>],
       mNativeContext = 0\<rparr>
     = Inr ([Call LogD [StrV ''stop\<newline>''],
             Call Open [StrV ''/dev/mtp_usb'', IntV 2],
             Call Printf [StrV ''open returned %d\<newline>'', IntV (- 1)],
             Call LogE [StrV ''could not open MTP driver\<newline>''],
             Call LogD [StrV ''setup\<newline>''],
             Call GetMtpDatabase [],
             Call GetStringUTFChars [],
             Call New_MtpThread [PtrV 512, StrV ''/mnt''],
             Call ReleaseStringUTFChars [StrV ''/mnt''],
             Call LogD [StrV ''start\<newline>''],
             Call Thread_run [PtrV 8192, StrV ''MtpThread'']],
            \<lparr>heap = [4096 \<mapsto> \<lparr>mDatabase = 512, mStoragePath = ''/sdcard'', mDone = True\<rparr>,
                     8192 \<mapsto> \<lparr>mDatabase = 512, mStoragePath = ''/mnt'', mDone = False\<rparr>],
             mNativeContext = 8192\<rparr>)
   \<and> (\<exists>t'. ([4096 \<mapsto> \<lparr>mDatabase = 512, mStoragePath = ''/sdcard'', mDone = True\<rparr>,
               8192 \<mapsto> \<lparr>mDatabase = 512, mStoragePath = ''/mnt'', mDone = False\<rparr>]
                :: heap) 4096 = Some t' \<and> mDone t')"
proof -
  let ?pf = "\<lparr>O_RDWR = 2, AID_SDCARD_RW = 1015\<rparr>"
  let ?t = "\<lparr>mDatabase = 512, mStoragePath = ''/sdcard'', mDone = True\<rparr>"
  let ?s = "\<lparr>heap = [4096 \<mapsto> ?t], mNativeContext = 0\<rparr>"
  let ?acts = "[Stop, ThreadLoop 4096 (- 1), Setup 8192 512 ''/mnt'', Start]"
  let ?evs = "[Call LogD [StrV ''stop\<newline>''],
             Call Open [StrV ''/dev/mtp_usb'', IntV 2],
             Call Printf [StrV ''open returned %d\<newline>'', IntV (- 1)],
             Call LogE [StrV ''could not open MTP driver\<newline>''],
             Call LogD [StrV ''setup\<newline>''],
             Call GetMtpDatabase [],
             Call GetStringUTFChars [],
             Call New_MtpThread [PtrV 512, StrV ''/mnt''],
             Call ReleaseStringUTFChars [StrV ''/mnt''],
             Call LogD [StrV ''start\<newline>''],
             Call Thread_run [PtrV 8192, StrV ''MtpThread'']]"
  let ?s' = "\<lparr>heap = [4096 \<mapsto> ?t,
                     8192 \<mapsto> \<lparr>mDatabase = 512, mStoragePath = ''/mnt'', mDone = False\<rparr>],
             mNativeContext = 8192\<rparr>"
  have run: "exec ?pf ?acts ?s = Inr (?evs, ?s')"
    by (simp add: android_media_MtpServer_stop_def android_media_MtpServer_start_def
        android_media_MtpServer_setup_def MtpThread_ctor_def threadLoop_def)
  have live: "heap ?s 4096 = Some ?t" by simp
  have kept: "Call Delete_this [PtrV 4096] \<notin> set ?evs" by simp
  from mDone_never_cleared[of 8192 512 "''/mnt''" ?s "[]" ?s ?t ?pf Stop ?s ?evs ?s' 4096 ?t ?t ?acts]
    run live kept
  have "\<exists>t'. heap ?s' 4096 = Some t' \<and> (mDone ?t \<longrightarrow> mDone t')" by blast
  with run show ?thesis by simp
qed

subsection \<open>stop\<close>

text \<open>
  Claim C5. When the field holds the address of a live object, \<open>stop\<close> sets
  that object's flag, writes 0 to the field and returns. Its only external call is
  its log line: it waits for nothing, whatever the worker is doing. Every other
  object and the other members of this one are as before.
\<close>

theorem stop_sets_flag_and_clears_slot:
  "mNativeContext s = p \<Longrightarrow> p \<noteq> 0 \<Longrightarrow> heap s p = Some obj \<Longrightarrow>
     android_media_MtpServer_stop s =
       Inr ([Call LogD [StrV ''stop\<newline>'']],
            s\<lparr>heap := (heap s)(p \<mapsto> obj\<lparr>mDone := True\<rparr>), mNativeContext := 0\<rparr>)"
  by (simp add: android_media_MtpServer_stop_def setDone_def)

theorem stop_sets_flag_and_clears_slot_witness:
  "mNativeContext
     \<lparr>heap = [4096 \<mapsto> \<lparr>mDatabase = 512, mStoragePath = ''/sdcard'', mDone = False\<rparr>],
      mNativeContext = 4096\<rparr> = 4096
   \<and> (4096 :: 32 word) \<noteq> 0
   \<and> heap
       \<lparr>heap = [4096 \<mapsto> \<lparr>mDatabase = 512, mStoragePath = ''/sdcard'', mDone = False\<rparr>],
        mNativeContext = 4096\<rparr> 4096
       = Some \<lparr>mDatabase = 512, mStoragePath = ''/sdcard'', mDone = False\<rparr>
   \<and> android_media_MtpServer_stop
       \<lparr>heap = [4096 \<mapsto> \<lparr>mDatabase = 512, mStoragePath = ''/sdcard'', mDone = False\<rparr>],
        mNativeContext = 4096\<rparr> =
       Inr ([Call LogD [StrV ''stop\<newline>'']],
            \<lparr>heap = [4096 \<mapsto> \<lparr>mDatabase = 512, mStoragePath = ''/sdcard'', mDone = True\<rparr>],
             mNativeContext = 0\<rparr>)"
  using stop_sets_flag_and_clears_slot
    [of "\<lparr>heap = [4096 \<mapsto> \<lparr>mDatabase = 512, mStoragePath = ''/sdcard'', mDone = False\<rparr>],
          mNativeContext = 4096\<rparr>" 4096
        "\<lparr>mDatabase = 512, mStoragePath = ''/sdcard'', mDone = False\<rparr>"]
  by simp

text \<open>
  \<open>stop\<close> before \<open>start\<close> is not always without effect. On an object that
  was set up and never started, \<open>stop\<close> sets the flag and writes 0 to the
  field: the state after it differs from the state before, and \<open>start\<close>, which
  went through before, now calls through a null pointer.
\<close>

theorem stop_before_start_counterexample:
  "step \<lparr>O_RDWR = 2, AID_SDCARD_RW = 1015\<rparr> (Setup 4096 512 ''/sdcard'') init =
     Inr ([Call LogD [StrV ''setup\<newline>''],
           Call GetMtpDatabase [],
           Call GetStringUTFChars [],
           Call New_MtpThread [PtrV 512, StrV ''/sdcard''],
           Call ReleaseStringUTFChars [StrV ''/sdcard'']],
          \<lparr>heap = [4096 \<mapsto> \<lparr>mDatabase = 512, mStoragePath = ''/sdcard'', mDone = False\<rparr>],
           mNativeContext = 4096\<rparr>)
   \<and> android_media_MtpServer_stop
       \<lparr>heap = [4096 \<mapsto> \<lparr>mDatabase = 512, mStoragePath = ''/sdcard'', mDone = False\<rparr>],
        mNativeContext = 4096\<rparr> =
       Inr ([Call LogD [StrV ''stop\<newline>'']],
            \<lparr>heap = [4096 \<mapsto> \<lparr>mDatabase = 512, mStoragePath = ''/sdcard'', mDone = True\<rparr>],
             mNativeContext = 0\<rparr>)
   \<and> \<lparr>heap = [4096 \<mapsto> \<lparr>mDatabase = 512, mStoragePath = ''/sdcard'', mDone = True\<rparr>],
       mNativeContext = (0 :: 32 word)\<rparr>
     \<noteq> \<lparr>heap = [4096 \<mapsto> \<lparr>mDatabase = 512, mStoragePath = ''/sdcard'', mDone = False\<rparr>],
         mNativeContext = 4096\<rparr>
   \<and> android_media_MtpServer_start
       \<lparr>heap = [4096 \<mapsto> \<lparr>mDatabase = 512, mStoragePath = ''/sdcard'', mDone = False\<rparr>],
        mNativeContext = 4096\<rparr> =
       Inr ([Call LogD [StrV ''start\<newline>''],
             Call Thread_run [PtrV 4096, StrV ''MtpThread'']],
            \<lparr>heap = [4096 \<mapsto> \<lparr>mDatabase = 512, mStoragePath = ''/sdcard'', mDone = False\<rparr>],
             mNativeContext = 4096\<rparr>)
   \<and> android_media_MtpServer_start
       \<lparr>heap = [4096 \<mapsto> \<lparr>mDatabase = 512, mStoragePath = ''/sdcard'', mDone = True\<rparr>],
        mNativeContext = 0\<rparr> = Inl NullPointerDereference"
  by (simp add: android_media_MtpServer_setup_def android_media_MtpServer_stop_def
      android_media_MtpServer_start_def MtpThread_ctor_def setDone_def init_def)

text \<open>
  Claim C6, as the code has it. When the field is null, \<open>stop\<close> returns
  without a fault and leaves the state as it was. After any \<open>stop\<close> that
  returned, a second \<open>stop\<close> is such a call. So is \<open>stop\<close> on an object
  that was never set up, and two of them in a row leave it as it was. After
  \<open>setup\<close>, started or not, the field is not null: \<open>stop\<close> then sets the
  flag of the new object and writes 0 to the field, and only the \<open>stop\<close>
  after that one changes nothing.
\<close>

theorem stop_on_null_slot_is_noop:
  "(mNativeContext s = 0 \<longrightarrow>
      android_media_MtpServer_stop s = Inr ([Call LogD [StrV ''stop\<newline>'']], s))
   \<and> (android_media_MtpServer_stop s = Inr (evs, s') \<longrightarrow>
      android_media_MtpServer_stop s' = Inr ([Call LogD [StrV ''stop\<newline>'']], s'))
   \<and> android_media_MtpServer_stop init = Inr ([Call LogD [StrV ''stop\<newline>'']], init)
   \<and> exec pf [Stop, Stop] init
       = Inr ([Call LogD [StrV ''stop\<newline>''], Call LogD [StrV ''stop\<newline>'']], init)
   \<and> (p \<noteq> 0 \<and> android_media_MtpServer_setup p database path s0 = (evs0, s1) \<longrightarrow>
      android_media_MtpServer_stop s1 =
        Inr ([Call LogD [StrV ''stop\<newline>'']],
             s1\<lparr>heap := (heap s1)
                     (p \<mapsto> \<lparr>mDatabase = database, mStoragePath = path, mDone = True\<rparr>),
                mNativeContext := 0\<rparr>)
      \<and> android_media_MtpServer_stop
          (s1\<lparr>heap := (heap s1)
                     (p \<mapsto> \<lparr>mDatabase = database, mStoragePath = path, mDone = True\<rparr>),
              mNativeContext := 0\<rparr>) =
        Inr ([Call LogD [StrV ''stop\<newline>'']],
             s1\<lparr>heap := (heap s1)
                     (p \<mapsto> \<lparr>mDatabase = database, mStoragePath = path, mDone = True\<rparr>),
                mNativeContext := 0\<rparr>))"
proof -
  have null: "mNativeContext s = 0 \<longrightarrow>
      android_media_MtpServer_stop s = Inr ([Call LogD [StrV ''stop\<newline>'']], s)"
    by (simp add: android_media_MtpServer_stop_def)
  have second: "android_media_MtpServer_stop s = Inr (evs, s') \<longrightarrow>
      android_media_MtpServer_stop s' = Inr ([Call LogD [StrV ''stop\<newline>'']], s')"
    by (auto simp: android_media_MtpServer_stop_def Let_def split: if_splits option.splits)
  have never: "android_media_MtpServer_stop init = Inr ([Call LogD [StrV ''stop\<newline>'']], init)"
    by (simp add: android_media_MtpServer_stop_def init_def)
  have twice: "exec pf [Stop, Stop] init
       = Inr ([Call LogD [StrV ''stop\<newline>''], Call LogD [StrV ''stop\<newline>'']], init)"
    by (simp add: android_media_MtpServer_stop_def init_def)
  have created: "p \<noteq> 0 \<and> android_media_MtpServer_setup p database path s0 = (evs0, s1) \<longrightarrow>
      android_media_MtpServer_stop s1 =
        Inr ([Call LogD [StrV ''stop\<newline>'']],
             s1\<lparr>heap := (heap s1)
                     (p \<mapsto> \<lparr>mDatabase = database, mStoragePath = path, mDone = True\<rparr>),
                mNativeContext := 0\<rparr>)
      \<and> android_media_MtpServer_stop
          (s1\<lparr>heap := (heap s1)
                     (p \<mapsto> \<lparr>mDatabase = database, mStoragePath = path, mDone = True\<rparr>),
              mNativeContext := 0\<rparr>) =
        Inr ([Call LogD [StrV ''stop\<newline>'']],
             s1\<lparr>heap := (heap s1)
                     (p \<mapsto> \<lparr>mDatabase = database, mStoragePath = path, mDone = True\<rparr>),
                mNativeContext := 0\<rparr>)"
    by (auto simp: android_media_MtpServer_setup_def android_media_MtpServer_stop_def
        MtpThread_ctor_def setDone_def)
  from null second never twice created show ?thesis by blast
qed

theorem stop_on_null_slot_is_noop_witness:
  "mNativeContext
     \<lparr>heap = [4096 \<mapsto> \<lparr>mDatabase = 512, mStoragePath = ''/sdcard'', mDone = True\<rparr>],
      mNativeContext = 0\<rparr> = 0
   \<and> android_media_MtpServer_stop
       \<lparr>heap = [4096 \<mapsto> \<lparr>mDatabase = 512, mStoragePath = ''/sdcard'', mDone = True\<rparr>],
        mNativeContext = 0\<rparr> =
       Inr ([Call LogD [StrV ''stop\<newline>'']],
            \<lparr>heap = [4096 \<mapsto> \<lparr>mDatabase = 512, mStoragePath = ''/sdcard'', mDone = True\<rparr>],
             mNativeContext = 0\<rparr>)
   \<and> (4096 :: 32 word) \<noteq> 0
   \<and> android_media_MtpServer_setup 4096 512 ''/sdcard'' init =
       ([Call LogD [StrV ''setup\<newline>''],
         Call GetMtpDatabase [],
         Call GetStringUTFChars [],
         Call New_MtpThread [PtrV 512, StrV ''/sdcard''],
         Call ReleaseStringUTFChars [StrV ''/sdcard'']],
        \<lparr>heap = [4096 \<mapsto> \<lparr>mDatabase = 512, mStoragePath = ''/sdcard'', mDone = False\<rparr>],
         mNativeContext = 4096\<rparr>)
   \<and> android_media_MtpServer_stop
       \<lparr>heap = [4096 \<mapsto> \<lparr>mDatabase = 512, mStoragePath = ''/sdcard'', mDone = False\<rparr>],
        mNativeContext = 4096\<rparr> =
       Inr ([Call LogD [StrV ''stop\<newline>'']],
            \<lparr>heap = [4096 \<mapsto> \<lparr>mDatabase = 512, mStoragePath = ''/sdcard'', mDone = True\<rparr>],
             mNativeContext = 0\<rparr>)"
proof -
  let ?done = "\<lparr>heap = [4096 \<mapsto> \<lparr>mDatabase = 512, mStoragePath = ''/sdcard'', mDone = True\<rparr>],
        mNativeContext = (0 :: 32 word)\<rparr>"
  let ?made = "\<lparr>heap = [4096 \<mapsto> \<lparr>mDatabase = 512, mStoragePath = ''/sdcard'', mDone = False\<rparr>],
         mNativeContext = (4096 :: 32 word)\<rparr>"
  let ?evs = "[Call LogD [StrV ''setup\<newline>''],
         Call GetMtpDatabase [],
         Call GetStringUTFChars [],
         Call New_MtpThread [PtrV 512, StrV ''/sdcard''],
         Call ReleaseStringUTFChars [StrV ''/sdcard'']]"
  have null: "mNativeContext ?done = 0" by simp
  have nz: "(4096 :: 32 word) \<noteq> 0" by simp
  have made: "android_media_MtpServer_setup 4096 512 ''/sdcard'' init = (?evs, ?made)"
    by (simp add: android_media_MtpServer_setup_def MtpThread_ctor_def init_def)
  from stop_on_null_slot_is_noop
    [of ?done "[]" ?done "\<lparr>O_RDWR = 2, AID_SDCARD_RW = 1015\<rparr>"
        4096 512 "''/sdcard''" init ?evs ?made]
    null nz made
  show ?thesis by simp
qed

text \<open>
  In every state reached from the start by a sequence of operations, \<open>stop\<close>
  returns without a fault and leaves the field null: the field never holds the
  address of a freed object.
\<close>

theorem stop_never_faults:
  "exec pf acts init = Inr (evs, s) \<Longrightarrow>
     \<exists>s'. android_media_MtpServer_stop s = Inr ([Call LogD [StrV ''stop\<newline>'']], s')
          \<and> mNativeContext s' = 0"
proof (cases "mNativeContext s = 0")
  case True
  then show ?thesis by (simp add: android_media_MtpServer_stop_def)
next
  case False
  assume r: "exec pf acts init = Inr (evs, s)"
  from reachable_slot[OF r False] False show ?thesis
    by (auto simp: android_media_MtpServer_stop_def)
qed

theorem stop_never_faults_witness:
  "exec \<lparr>O_RDWR = 2, AID_SDCARD_RW = 1015\<rparr> [Setup 4096 512 ''/sdcard'', Start] init =
     Inr ([Call LogD [StrV ''setup\<newline>''],
           Call GetMtpDatabase [],
           Call GetStringUTFChars [],
           Call New_MtpThread [PtrV 512, StrV ''/sdcard''],
           Call ReleaseStringUTFChars [StrV ''/sdcard''],
           Call LogD [StrV ''start\<newline>''],
           Call Thread_run [PtrV 4096, StrV ''MtpThread'']],
          \<lparr>heap = [4096 \<mapsto> \<lparr>mDatabase = 512, mStoragePath = ''/sdcard'', mDone = False\<rparr>],
           mNativeContext = 4096\<rparr>)
   \<and> (\<exists>s'. android_media_MtpServer_stop
          \<lparr>heap = [4096 \<mapsto> \<lparr>mDatabase = 512, mStoragePath = ''/sdcard'', mDone = False\<rparr>],
           mNativeContext = 4096\<rparr> = Inr ([Call LogD [StrV ''stop\<newline>'']], s')
        \<and> mNativeContext s' = 0)"
proof -
  let ?pf = "\<lparr>O_RDWR = 2, AID_SDCARD_RW = 1015\<rparr>"
  let ?s = "\<lparr>heap = [4096 \<mapsto> \<lparr>mDatabase = 512, mStoragePath = ''/sdcard'', mDone = False\<rparr>],
           mNativeContext = 4096\<rparr>"
  have run: "exec ?pf [Setup 4096 512 ''/sdcard'', Start] init =
     Inr ([Call LogD [StrV ''setup\<newline>''],
           Call GetMtpDatabase [],
           Call GetStringUTFChars [],
           Call New_MtpThread [PtrV 512, StrV ''/sdcard''],
           Call ReleaseStringUTFChars [StrV ''/sdcard''],
           Call LogD [StrV ''start\<newline>''],
           Call Thread_run [PtrV 4096, StrV ''MtpThread'']], ?s)"
    by (simp add: android_media_MtpServer_setup_def android_media_MtpServer_start_def
        MtpThread_ctor_def init_def)
  from stop_never_faults[OF run] run show ?thesis by simp
qed

subsection \<open>setup\<close>

text \<open>
  Claim C7. \<open>setup\<close> puts a new object at the address \<open>new\<close> returned,
  holding the database pointer and the path it was given and a clear flag, and
  stores that address in the field. No other object changes. It does not call
  \<open>open\<close>, constructs no server and does not call \<open>Thread::run\<close>. It has
  no fault: its result is a pair, not a sum, and as an operation of a sequence it
  is refused only when the address is not a fresh one.
\<close>

theorem setup_constructs_only:
  "android_media_MtpServer_setup p database path s = (evs, s') \<Longrightarrow>
     heap s' p = Some \<lparr>mDatabase = database, mStoragePath = path, mDone = False\<rparr>
     \<and> mNativeContext s' = p
     \<and> (\<forall>q. q \<noteq> p \<longrightarrow> heap s' q = heap s q)
     \<and> calls_to Open evs = []
     \<and> calls_to New_MtpServer evs = []
     \<and> calls_to Thread_run evs = []
     \<and> calls_to New_MtpThread evs = [[PtrV database, StrV path]]
     \<and> (p \<noteq> 0 \<and> heap s p = None \<longrightarrow> step pf (Setup p database path) s = Inr (evs, s'))"
  by (auto simp: android_media_MtpServer_setup_def MtpThread_ctor_def)

theorem setup_constructs_only_witness:
  "android_media_MtpServer_setup 4096 512 ''/sdcard'' init =
     ([Call LogD [StrV ''setup\<newline>''],
       Call GetMtpDatabase [],
       Call GetStringUTFChars [],
       Call New_MtpThread [PtrV 512, StrV ''/sdcard''],
       Call ReleaseStringUTFChars [StrV ''/sdcard'']],
      \<lparr>heap = [4096 \<mapsto> \<lparr>mDatabase = 512, mStoragePath = ''/sdcard'', mDone = False\<rparr>],
       mNativeContext = 4096\<rparr>)
   \<and> heap \<lparr>heap = [4096 \<mapsto> \<lparr>mDatabase = 512, mStoragePath = ''/sdcard'', mDone = False\<rparr>],
           mNativeContext = 4096\<rparr> 4096
       = Some \<lparr>mDatabase = 512, mStoragePath = ''/sdcard'', mDone = False\<rparr>
   \<and> step \<lparr>O_RDWR = 2, AID_SDCARD_RW = 1015\<rparr> (Setup 4096 512 ''/sdcard'') init =
       Inr ([Call LogD [StrV ''setup\<newline>''],
             Call GetMtpDatabase [],
             Call GetStringUTFChars [],
             Call New_MtpThread [PtrV 512, StrV ''/sdcard''],
             Call ReleaseStringUTFChars [StrV ''/sdcard'']],
            \<lparr>heap = [4096 \<mapsto> \<lparr>mDatabase = 512, mStoragePath = ''/sdcard'', mDone = False\<rparr>],
             mNativeContext = 4096\<rparr>)"
proof -
  let ?evs = "[Call LogD [StrV ''setup\<newline>''],
       Call GetMtpDatabase [],
       Call GetStringUTFChars [],
       Call New_MtpThread [PtrV 512, StrV ''/sdcard''],
       Call ReleaseStringUTFChars [StrV ''/sdcard'']]"
  let ?s' = "\<lparr>heap = [4096 \<mapsto> \<lparr>mDatabase = 512, mStoragePath = ''/sdcard'', mDone = False\<rparr>],
       mNativeContext = 4096\<rparr>"
  have run: "android_media_MtpServer_setup 4096 512 ''/sdcard'' init = (?evs, ?s')"
    by (simp add: android_media_MtpServer_setup_def MtpThread_ctor_def init_def)
  have fresh: "(4096 :: 32 word) \<noteq> 0 \<and> heap init 4096 = None"
    by (simp add: init_def)
  from setup_constructs_only[OF run, of "\<lparr>O_RDWR = 2, AID_SDCARD_RW = 1015\<rparr>"] fresh run
  show ?thesis by simp
qed

subsection \<open>start\<close>

text \<open>
  Claim C9. With a null field \<open>start\<close> calls \<open>run\<close> through the null
  pointer, where \<open>stop\<close> returns normally. The field is null before any
  \<open>setup\<close> and after every \<open>stop\<close>; right after \<open>setup\<close> the call goes
  through. In every state reached from the start by a sequence of operations,
  \<open>start\<close> faults exactly when the field is null, and the field is written
  by \<open>setup\<close> and by \<open>stop\<close> only.
\<close>

theorem start_dereferences_unchecked:
  "(mNativeContext s = 0 \<longrightarrow>
      android_media_MtpServer_start s = Inl NullPointerDereference
      \<and> android_media_MtpServer_stop s = Inr ([Call LogD [StrV ''stop\<newline>'']], s))
   \<and> android_media_MtpServer_start init = Inl NullPointerDereference
   \<and> (android_media_MtpServer_stop s = Inr (evs, s') \<longrightarrow>
        android_media_MtpServer_start s' = Inl NullPointerDereference)
   \<and> (p \<noteq> 0 \<and> android_media_MtpServer_setup p database path s = (evs1, s1) \<longrightarrow>
        android_media_MtpServer_start s1 =
          Inr ([Call LogD [StrV ''start\<newline>''],
                Call Thread_run [PtrV p, StrV ''MtpThread'']], s1))
   \<and> (exec pf acts init = Inr (evs2, s2) \<longrightarrow>
        (mNativeContext s2 = 0 \<longrightarrow>
           android_media_MtpServer_start s2 = Inl NullPointerDereference)
        \<and> (mNativeContext s2 \<noteq> 0 \<longrightarrow>
           android_media_MtpServer_start s2 =
             Inr ([Call LogD [StrV ''start\<newline>''],
                   Call Thread_run [PtrV (mNativeContext s2), StrV ''MtpThread'']], s2)))
   \<and> (step pf act s3 = Inr (evs3, s4) \<and> mNativeContext s4 \<noteq> mNativeContext s3 \<longrightarrow>
        (\<exists>database' path'. act = Setup (mNativeContext s4) database' path')
        \<or> (act = Stop \<and> mNativeContext s4 = 0))"
proof -
  have writers:
    "step pf act s3 = Inr (evs3, s4) \<and> mNativeContext s4 \<noteq> mNativeContext s3 \<longrightarrow>
        (\<exists>database' path'. act = Setup (mNativeContext s4) database' path')
        \<or> (act = Stop \<and> mNativeContext s4 = 0)"
    using step_slot_write[of pf act s3 evs3 s4] by blast
  have null: "mNativeContext s = 0 \<longrightarrow>
      android_media_MtpServer_start s = Inl NullPointerDereference
      \<and> android_media_MtpServer_stop s = Inr ([Call LogD [StrV ''stop\<newline>'']], s)" for s
    by (simp add: android_media_MtpServer_start_def android_media_MtpServer_stop_def)
  have fresh: "android_media_MtpServer_start init = Inl NullPointerDereference"
    by (simp add: android_media_MtpServer_start_def init_def)
  have stopped: "android_media_MtpServer_stop s = Inr (evs, s') \<longrightarrow>
        android_media_MtpServer_start s' = Inl NullPointerDereference"
    by (auto simp: android_media_MtpServer_start_def android_media_MtpServer_stop_def Let_def
        split: if_splits option.splits)
  have set_up: "p \<noteq> 0 \<and> android_media_MtpServer_setup p database path s = (evs1, s1) \<longrightarrow>
        android_media_MtpServer_start s1 =
          Inr ([Call LogD [StrV ''start\<newline>''],
                Call Thread_run [PtrV p, StrV ''MtpThread'']], s1)"
    by (auto simp: android_media_MtpServer_start_def android_media_MtpServer_setup_def)
  have reached: "exec pf acts init = Inr (evs2, s2) \<longrightarrow>
        (mNativeContext s2 = 0 \<longrightarrow>
           android_media_MtpServer_start s2 = Inl NullPointerDereference)
        \<and> (mNativeContext s2 \<noteq> 0 \<longrightarrow>
           android_media_MtpServer_start s2 =
             Inr ([Call LogD [StrV ''start\<newline>''],
                   Call Thread_run [PtrV (mNativeContext s2), StrV ''MtpThread'']], s2))"
  proof (intro impI conjI)
    assume "exec pf acts init = Inr (evs2, s2)" "mNativeContext s2 = 0"
    with null[of s2] show "android_media_MtpServer_start s2 = Inl NullPointerDereference"
      by simp
  next
    assume r: "exec pf acts init = Inr (evs2, s2)" and n: "mNativeContext s2 \<noteq> 0"
    from reachable_slot[OF r n] n
    show "android_media_MtpServer_start s2 =
             Inr ([Call LogD [StrV ''start\<newline>''],
                   Call Thread_run [PtrV (mNativeContext s2), StrV ''MtpThread'']], s2)"
      by (auto simp: android_media_MtpServer_start_def)
  qed
  from null[of s] fresh stopped set_up reached writers show ?thesis by blast
qed

theorem start_dereferences_unchecked_witness:
  "exec \<lparr>O_RDWR = 2, AID_SDCARD_RW = 1015\<rparr> [Setup 4096 512 ''/sdcard'', Stop] init =
     Inr ([Call LogD [StrV ''setup\<newline>''],
           Call GetMtpDatabase [],
           Call GetStringUTFChars [],
           Call New_MtpThread [PtrV 512, StrV ''/sdcard''],
           Call ReleaseStringUTFChars [StrV ''/sdcard''],
           Call LogD [StrV ''stop\<newline>'']],
          \<lparr>heap = [4096 \<mapsto> \<lparr>mDatabase = 512, mStoragePath = ''/sdcard'', mDone = True\<rparr>],
           mNativeContext = 0\<rparr>)
   \<and> android_media_MtpServer_start
       \<lparr>heap = [4096 \<mapsto> \<lparr>mDatabase = 512, mStoragePath = ''/sdcard'', mDone = True\<rparr>],
        mNativeContext = 0\<rparr> = Inl NullPointerDereference
   \<and> android_media_MtpServer_stop
       \<lparr>heap = [4096 \<mapsto> \<lparr>mDatabase = 512, mStoragePath = ''/sdcard'', mDone = True\<rparr>],
        mNativeContext = 0\<rparr> =
       Inr ([Call LogD [StrV ''stop\<newline>'']],
          \<lparr>heap = [4096 \<mapsto> \<lparr>mDatabase = 512, mStoragePath = ''/sdcard'', mDone = True\<rparr>],
           mNativeContext = 0\<rparr>)"
proof -
  let ?pf = "\<lparr>O_RDWR = 2, AID_SDCARD_RW = 1015\<rparr>"
  let ?s = "\<lparr>heap = [4096 \<mapsto> \<lparr>mDatabase = 512, mStoragePath = ''/sdcard'', mDone = True\<rparr>],
           mNativeContext = 0\<rparr>"
  let ?evs = "[Call LogD [StrV ''setup\<newline>''],
           Call GetMtpDatabase [],
           Call GetStringUTFChars [],
           Call New_MtpThread [PtrV 512, StrV ''/sdcard''],
           Call ReleaseStringUTFChars [StrV ''/sdcard''],
           Call LogD [StrV ''stop\<newline>'']]"
  have run: "exec ?pf [Setup 4096 512 ''/sdcard'', Stop] init = Inr (?evs, ?s)"
    by (simp add: android_media_MtpServer_setup_def android_media_MtpServer_stop_def
        MtpThread_ctor_def setDone_def init_def)
  have null: "mNativeContext ?s = 0" by simp
  from start_dereferences_unchecked
    [of ?s "[]" ?s 4096 512 "''/sdcard''" "[]" ?s ?pf "[Setup 4096 512 ''/sdcard'', Stop]" ?evs ?s]
    run null
  show ?thesis by simp
qed

subsection \<open>Who frees the object\<close>

text \<open>
  Claim C10. An object leaves the heap only in a worker iteration on that very
  object whose \<open>open\<close> succeeded and which found the flag set. An iteration
  whose \<open>open\<close> failed, and one that completed with the flag clear, return
  without deleting anything; after a failed \<open>open\<close> the body has returned
  \<open>false\<close> and the object is still allocated.
\<close>

theorem released_only_by_worker_after_flag:
  "(step pf act s = Inr (evs, s') \<and> heap s a = Some t \<and> heap s' a = None \<longrightarrow>
      (\<exists>fd. act = ThreadLoop a fd \<and> 0 \<le> fd) \<and> mDone t
      \<and> Call Delete_this [PtrV a] \<in> set evs)
   \<and> (exec pf acts s = Inr (evs, s') \<and> heap s a = Some t \<and> heap s' a = None \<longrightarrow>
      (\<exists>fd. ThreadLoop a fd \<in> set acts \<and> 0 \<le> fd))
   \<and> (fd < 0 \<longrightarrow>
      (\<exists>evs'. threadLoop pf fd this h = Inr (evs', False, h)
         \<and> calls_to Delete_this evs' = []))
   \<and> (0 \<le> fd \<and> this \<noteq> 0 \<and> h this = Some obj \<and> \<not> mDone obj \<longrightarrow>
      (\<exists>evs'. threadLoop pf fd this h = Inr (evs', True, h)
         \<and> calls_to Delete_this evs' = []))
   \<and> (fd < 0 \<and> heap s this = Some obj \<longrightarrow>
      (\<exists>evs' s1. step pf (ThreadLoop this fd) s = Inr (evs', s1)
         \<and> heap s1 this = Some obj))"
proof -
  have one_step: "step pf act s = Inr (evs, s') \<and> heap s a = Some t \<and> heap s' a = None \<longrightarrow>
      (\<exists>fd. act = ThreadLoop a fd \<and> 0 \<le> fd) \<and> mDone t
      \<and> Call Delete_this [PtrV a] \<in> set evs"
    using step_release[of pf act s evs s' a t] by blast
  have many_steps:
    "exec pf acts s = Inr (evs, s') \<and> heap s a = Some t \<and> heap s' a = None \<longrightarrow>
      (\<exists>fd. ThreadLoop a fd \<in> set acts \<and> 0 \<le> fd)"
    using exec_release[of pf acts s evs s' a t] by blast
  have failed: "fd < 0 \<longrightarrow>
      (\<exists>evs'. threadLoop pf fd this h = Inr (evs', False, h)
         \<and> calls_to Delete_this evs' = [])"
    by (simp add: threadLoop_open_failed)
  have again: "0 \<le> fd \<and> this \<noteq> 0 \<and> h this = Some obj \<and> \<not> mDone obj \<longrightarrow>
      (\<exists>evs'. threadLoop pf fd this h = Inr (evs', True, h)
         \<and> calls_to Delete_this evs' = [])"
    by (simp add: threadLoop_served)
  have terminal: "fd < 0 \<and> heap s this = Some obj \<longrightarrow>
      (\<exists>evs' s1. step pf (ThreadLoop this fd) s = Inr (evs', s1)
         \<and> heap s1 this = Some obj)"
    by (simp add: threadLoop_open_failed)
  from one_step many_steps failed again terminal show ?thesis by blast
qed

theorem released_only_by_worker_after_flag_witness:
  "step \<lparr>O_RDWR = 2, AID_SDCARD_RW = 1015\<rparr> (ThreadLoop 4096 3)
     \<lparr>heap = [4096 \<mapsto> \<lparr>mDatabase = 512, mStoragePath = ''/sdcard'', mDone = True\<rparr>],
      mNativeContext = 0\<rparr>
     = Inr ([Call Open [StrV ''/dev/mtp_usb'', IntV 2],
             Call Printf [StrV ''open returned %d\<newline>'', IntV 3],
             Call New_MtpServer [IntV 3, PtrV 512, IntV 1015, IntV 436, IntV 509],
             Call AddStorage [StrV ''/sdcard''],
             Call LogD [StrV ''MtpThread server->run''],
             Call Run [],
             Call Close [IntV 3],
             Call Delete_MtpServer [],
             Call Delete_this [PtrV 4096],
             Call LogD [StrV ''threadLoop returning %s'', StrV ''false'']],
            \<lparr>heap = Map.empty, mNativeContext = 0\<rparr>)
   \<and> heap \<lparr>heap = [4096 \<mapsto> \<lparr>mDatabase = 512, mStoragePath = ''/sdcard'', mDone = True\<rparr>],
           mNativeContext = 0\<rparr> 4096
       = Some \<lparr>mDatabase = 512, mStoragePath = ''/sdcard'', mDone = True\<rparr>
   \<and> heap \<lparr>heap = Map.empty, mNativeContext = 0\<rparr> (4096 :: 32 word) = None
   \<and> mDone \<lparr>mDatabase = 512, mStoragePath = ''/sdcard'', mDone = True\<rparr>
   \<and> (\<exists>evs' s1. step \<lparr>O_RDWR = 2, AID_SDCARD_RW = 1015\<rparr> (ThreadLoop 4096 (- 1))
          \<lparr>heap = [4096 \<mapsto> \<lparr>mDatabase = 512, mStoragePath = ''/sdcard'', mDone = True\<rparr>],
           mNativeContext = 0\<rparr> = Inr (evs', s1)
        \<and> heap s1 4096 = Some \<lparr>mDatabase = 512, mStoragePath = ''/sdcard'', mDone = True\<rparr>)"
proof -
  let ?pf = "\<lparr>O_RDWR = 2, AID_SDCARD_RW = 1015\<rparr>"
  let ?t = "\<lparr>mDatabase = 512, mStoragePath = ''/sdcard'', mDone = True\<rparr>"
  let ?s = "\<lparr>heap = [4096 \<mapsto> ?t], mNativeContext = 0\<rparr>"
  let ?s' = "\<lparr>heap = (Map.empty :: heap), mNativeContext = 0\<rparr>"
  let ?evs = "[Call Open [StrV ''/dev/mtp_usb'', IntV 2],
             Call Printf [StrV ''open returned %d\<newline>'', IntV 3],
             Call New_MtpServer [IntV 3, PtrV 512, IntV 1015, IntV 436, IntV 509],
             Call AddStorage [StrV ''/sdcard''],
             Call LogD [StrV ''MtpThread server->run''],
             Call Run [],
             Call Close [IntV 3],
             Call Delete_MtpServer [],
             Call Delete_this [PtrV 4096],
             Call LogD [StrV ''threadLoop returning %s'', StrV ''false'']]"
  have run: "step ?pf (ThreadLoop 4096 3) ?s = Inr (?evs, ?s')"
    by (simp add: threadLoop_def)
  have before: "heap ?s 4096 = Some ?t" and after: "heap ?s' 4096 = None"
    by simp_all
  have neg: "(- 1 :: int) < 0" by simp
  from released_only_by_worker_after_flag
    [of ?pf "ThreadLoop 4096 3" ?s ?evs ?s' 4096 ?t "[]" "- 1" 4096 "heap ?s" ?t]
    run before after neg
  have "mDone ?t"
    and "\<exists>evs' s1. step ?pf (ThreadLoop 4096 (- 1)) ?s = Inr (evs', s1)
        \<and> heap s1 4096 = Some ?t"
    by blast+
  with run before after show ?thesis by simp
qed

end
